theory Spec2Isabelle
  imports Complex_Main
begin

section \<open>The vSphere virtual machine resource\<close>

text \<open>
  A shallow embedding of \<^verbatim>\<open>vsphere/resource_vsphere_virtual_machine.go\<close>: the four
  lifecycle callbacks \<^verbatim>\<open>resourceVSphereVirtualMachineCreate\<close>, \<^verbatim>\<open>...Read\<close>,
  \<^verbatim>\<open>...Update\<close> and \<^verbatim>\<open>...Delete\<close>.

  The callbacks talk to three collaborators that are not part of the file: the
  Terraform resource data \<^verbatim>\<open>d\<close>, the govmomi client (finder, property collector,
  power-off/destroy tasks) and the wall clock. The resource data is a record that is
  passed in and returned updated; the client and the clock are a record of response
  functions (\<open>platform\<close>); every call made to them is appended to a list of events, so
  that the order and the number of calls can be stated.
\<close>

subsection \<open>Values and errors\<close>

text \<open>A Go \<^verbatim>\<open>error\<close> is represented by its message.\<close>

type_synonym error = string

text \<open>
  \<^verbatim>\<open>d.Get\<close> returns an \<^verbatim>\<open>interface{}\<close>: a value together with its dynamic type.
  Two interface values are equal only when their dynamic types agree, which is what
  equality on this datatype gives. For a key of the schema \<^verbatim>\<open>d.Get\<close> returns the
  zero value of the key's type when the key is not set (\<^verbatim>\<open>""\<close> for
  \<^verbatim>\<open>TypeString\<close>, \<^verbatim>\<open>0\<close> for \<^verbatim>\<open>TypeInt\<close>), never \<^verbatim>\<open>nil\<close>.
\<close>

datatype iface = INil | IString string | IInt int

definition schemaInt :: "int option \<Rightarrow> int" where
  "schemaInt v = (case v of None \<Rightarrow> 0 | Some n \<Rightarrow> n)"

text \<open>How a callback ends: it returns its \<^verbatim>\<open>error\<close> (\<open>None\<close> is \<^verbatim>\<open>nil\<close>), or it panics.\<close>

datatype outcome = Return "error option" | Panic

subsection \<open>The resource data\<close>

text \<open>
  The elements of the schema's \<^verbatim>\<open>network_interface\<close> and \<^verbatim>\<open>disk\<close> lists. A string
  that is not set reads as \<^verbatim>\<open>""\<close>; the two integers of a disk are optional, and
  \<open>None\<close> is a key that is not set.
\<close>

record networkInterfaceConfig =
  ni_label :: string
  ni_ip_address :: string
  ni_subnet_mask :: string
  ni_adapter_type :: string

record diskConfig =
  disk_template :: string
  disk_datastore :: string
  disk_size :: "int option"
  disk_iops :: "int option"

text \<open>What \<^verbatim>\<open>d.Set(key, value)\<close> is given in this file.\<close>

datatype setval = SDatacenter string | SInt int | SString string

text \<open>
  \<^verbatim>\<open>*schema.ResourceData\<close>: the tracked identity (\<^verbatim>\<open>d.Id()\<close>, \<^verbatim>\<open>d.SetId\<close>), the
  configured attributes as \<^verbatim>\<open>d.Get\<close> reads them (\<open>cfg_domain\<close> and \<open>cfg_time_zone\<close>
  hold the schema's defaults when not set), the writes made by \<^verbatim>\<open>d.Set\<close> in the order
  they are made, and the connection info. No callback reads a key after it has written
  it, so the writes are kept as a log; what the schema library does with a written value
  is not part of this file.
\<close>

record ResourceData =
  Id :: string
  cfg_name :: string
  cfg_boot_delay :: int
  cfg_vcpu :: int
  cfg_memory :: int
  cfg_datacenter :: string
  cfg_cluster :: string
  cfg_resource_pool :: string
  cfg_gateway :: string
  cfg_domain :: string
  cfg_time_zone :: string
  cfg_dns_suffix :: "string list"
  cfg_dns_server :: "string list"
  cfg_network_interface :: "networkInterfaceConfig list"
  cfg_disk :: "diskConfig list"
  written :: "(string \<times> setval) list"
  ConnInfo :: "(string \<times> string) list"

definition SetId :: "string \<Rightarrow> ResourceData \<Rightarrow> ResourceData" where
  "SetId v d = d\<lparr>Id := v\<rparr>"

definition Set :: "string \<Rightarrow> setval \<Rightarrow> ResourceData \<Rightarrow> ResourceData" where
  "Set k v d = d\<lparr>written := written d @ [(k, v)]\<rparr>"

definition SetConnInfo :: "(string \<times> string) list \<Rightarrow> ResourceData \<Rightarrow> ResourceData" where
  "SetConnInfo m d = d\<lparr>ConnInfo := m\<rparr>"

text \<open>
  \<^verbatim>\<open>d.Get("network_interface.<i>...")\<close> and \<^verbatim>\<open>d.Get("disk.<i>...")\<close>: the element
  \<open>i\<close> of the list, and zero values when the list is shorter.
\<close>

definition GetNetworkInterface :: "ResourceData \<Rightarrow> nat \<Rightarrow> networkInterfaceConfig" where
  "GetNetworkInterface d i =
     (if i < length (cfg_network_interface d) then cfg_network_interface d ! i
      else \<lparr>ni_label = [], ni_ip_address = [], ni_subnet_mask = [], ni_adapter_type = []\<rparr>)"

definition GetDisk :: "ResourceData \<Rightarrow> nat \<Rightarrow> diskConfig" where
  "GetDisk d i =
     (if i < length (cfg_disk d) then cfg_disk d ! i
      else \<lparr>disk_template = [], disk_datastore = [], disk_size = None, disk_iops = None\<rparr>)"

subsection \<open>The virtual machine specification\<close>

text \<open>
  The structs \<^verbatim>\<open>virtualMachine\<close>, \<^verbatim>\<open>networkInterface\<close> and \<^verbatim>\<open>hardDisk\<close>, with the
  fields this file assigns.
\<close>

record networkInterface =
  label :: string
  ipAddress :: string
  subnetMask :: string

record hardDisk =
  size' :: int
  iops :: int

record virtualMachine =
  name :: string
  vcpu :: int
  memoryMb :: int
  datacenter :: string
  cluster :: string
  resourcePool :: string
  gateway :: string
  domain :: string
  timeZone :: string
  dnsSuffixes :: "string list"
  dnsServers :: "string list"
  networkInterfaces :: "networkInterface list"
  template :: string
  datastore :: string
  hardDisks :: "hardDisk list"

definition DefaultDNSSuffixes :: "string list" where
  "DefaultDNSSuffixes = [''vsphere.local'']"

definition DefaultDNSServers :: "string list" where
  "DefaultDNSServers = [''8.8.8.8'', ''8.8.4.4'']"

subsection \<open>The platform\<close>

text \<open>
  \<^verbatim>\<open>mvm.Summary\<close> of \<^verbatim>\<open>mo.VirtualMachine\<close>, with the four fields the file reads.
  \<^verbatim>\<open>Runtime.BootTime\<close> is a pointer (the file dereferences it), so it is optional; a
  time is a number of nanoseconds.
\<close>

record VirtualMachineSummary =
  Config_MemorySizeMB :: int
  Config_NumCpu :: int
  Runtime_BootTime :: "int option"
  Guest_IpAddress :: string

text \<open>\<^verbatim>\<open>var mvm mo.VirtualMachine\<close>: the zero value.\<close>

definition zeroSummary :: VirtualMachineSummary where
  "zeroSummary =
     \<lparr>Config_MemorySizeMB = 0, Config_NumCpu = 0, Runtime_BootTime = None, Guest_IpAddress = []\<rparr>"

text \<open>
  The responses of the client and the clock. Datacenters, virtual machines and tasks are
  named by strings. \<open>collector_RetrieveOne p n vm\<close> is the answer to the retrieval
  that \<open>n\<close> retrievals of the same invocation precede, so that the answers can change
  from one retrieval to the next. \<open>vm_deployVirtualMachine\<close> and
  \<open>vm_createVirtualMachine\<close> are the two methods of \<^verbatim>\<open>virtualMachine\<close> that the create
  callback calls; they are defined in another file and are taken as they answer.
\<close>

record platform =
  finder_Datacenter :: "string \<Rightarrow> error + string"
  finder_DefaultDatacenter :: "error + string"
  finder_VirtualMachine :: "string \<Rightarrow> string \<Rightarrow> error + string"
  collector_RetrieveOne :: "nat \<Rightarrow> string \<Rightarrow> error + VirtualMachineSummary"
  vm_PowerOff :: "string \<Rightarrow> error + string"
  vm_Destroy :: "string \<Rightarrow> error + string"
  task_Wait :: "string \<Rightarrow> error option"
  time_Now :: int
  vm_deployVirtualMachine :: "virtualMachine \<Rightarrow> error option"
  vm_createVirtualMachine :: "virtualMachine \<Rightarrow> error option"

text \<open>The calls made to the platform, and the sleeps, in the order they happen.\<close>

datatype event =
    FinderDatacenter string
  | FinderDefaultDatacenter
  | FinderVirtualMachine string string
  | CollectorRetrieveOne string
  | DelaySecond int
  | DeployVirtualMachine virtualMachine
  | CreateVirtualMachine virtualMachine
  | PowerOff string
  | Destroy string
  | TaskWait string


subsection \<open>Reading the virtual machine\<close>

text \<open>
  The local state of \<^verbatim>\<open>resourceVSphereVirtualMachineRead\<close> once the virtual machine
  is found: the variable \<^verbatim>\<open>mvm\<close>, the events so far, and the number of retrievals
  made.
\<close>

record session =
  mvm :: VirtualMachineSummary
  calls :: "event list"
  retrieved :: nat

text \<open>
  \<^verbatim>\<open>err = collector.RetrieveOne(context.TODO(), vm.Reference(), []string{"summary"}, &mvm)\<close>.
  The error is assigned and never read. A retrieval that fails leaves \<^verbatim>\<open>mvm\<close> as it
  was; one that succeeds overwrites the summary.
\<close>

definition RetrieveOne :: "platform \<Rightarrow> string \<Rightarrow> session \<Rightarrow> session" where
  "RetrieveOne p vm s =
     s\<lparr>mvm := (case collector_RetrieveOne p (retrieved s) vm of
                 Inl err \<Rightarrow> mvm s
               | Inr summary \<Rightarrow> summary),
       calls := calls s @ [CollectorRetrieveOne vm],
       retrieved := Suc (retrieved s)\<rparr>"

text \<open>\<^verbatim>\<open>delaySecond(n)\<close> sleeps \<open>n\<close> seconds.\<close>

definition delaySecond :: "int \<Rightarrow> session \<Rightarrow> session" where
  "delaySecond n s = s\<lparr>calls := calls s @ [DelaySecond n]\<rparr>"

text \<open>
  \<^verbatim>\<open>for ip_address == "" { ...RetrieveOne...; ip_address = mvm.Summary.Guest.IpAddress;
  delaySecond(1) }\<close>. The loop has no bound: where it does not end, the value is \<open>None\<close>.
\<close>

partial_function (option) retryLoop ::
  "platform \<Rightarrow> string \<Rightarrow> string \<times> session \<Rightarrow> (string \<times> session) option" where
  "retryLoop p vm st =
     (if fst st = []
      then retryLoop p vm
             (Guest_IpAddress (mvm (RetrieveOne p vm (snd st))),
              delaySecond 1 (RetrieveOne p vm (snd st)))
      else Some st)"

declare retryLoop.simps [code]

text \<open>
  \<^verbatim>\<open>duration.Seconds()\<close> of a duration in nanoseconds, and the remaining boot delay
  \<^verbatim>\<open>float64(d.Get("boot_delay").(int)) - float64(duration.Seconds())\<close>, with the
  floating-point numbers taken as reals. \<^verbatim>\<open>int(remaining_boot_delay)\<close> truncates; it
  is taken only where the number is positive, where truncation is the floor.
\<close>

definition Seconds :: "int \<Rightarrow> real" where
  "Seconds duration = real_of_int duration / 1000000000"

definition remaining_boot_delay :: "platform \<Rightarrow> ResourceData \<Rightarrow> int \<Rightarrow> real" where
  "remaining_boot_delay p d BootTime =
     real_of_int (cfg_boot_delay d) - Seconds (time_Now p - BootTime)"

text \<open>
  The \<^verbatim>\<open>else\<close> branch of \<^verbatim>\<open>if d.Get("network_interface.0.ip_address") != ""\<close>
  (DHCP on the first interface): the value of \<^verbatim>\<open>ip_address\<close> after the branch and the
  session, \<open>Inl ()\<close> for the panic of dereferencing a \<^verbatim>\<open>nil\<close> boot time, \<open>None\<close>
  when the retry loop does not end.
\<close>

definition dhcpAddress ::
  "platform \<Rightarrow> ResourceData \<Rightarrow> string \<Rightarrow> session \<Rightarrow> (unit + string \<times> session) option" where
  "dhcpAddress p d vm s =
     (case Runtime_BootTime (mvm s) of
        None \<Rightarrow> Some (Inl ())
      | Some BootTime \<Rightarrow>
          if remaining_boot_delay p d BootTime > 0
          then (case retryLoop p vm
                       (Guest_IpAddress
                          (mvm (RetrieveOne p vm
                                 (delaySecond \<lfloor>remaining_boot_delay p d BootTime\<rfloor> s))),
                        RetrieveOne p vm
                          (delaySecond \<lfloor>remaining_boot_delay p d BootTime\<rfloor> s)) of
                  None \<Rightarrow> None
                | Some (ip_address, s') \<Rightarrow> Some (Inr (Guest_IpAddress (mvm s'), s')))
          else Some (Inr (Guest_IpAddress (mvm s), s)))"

text \<open>
  Lines 341 to 375: the static address of the first interface when it is set, the DHCP
  branch otherwise.
\<close>

definition resolveAddress ::
  "platform \<Rightarrow> ResourceData \<Rightarrow> string \<Rightarrow> session \<Rightarrow> (unit + string \<times> session) option" where
  "resolveAddress p d vm s =
     (if IString (ni_ip_address (GetNetworkInterface d 0)) \<noteq> IString []
      then Some (Inr (ni_ip_address (GetNetworkInterface d 0), s))
      else dhcpAddress p d vm s)"

text \<open>
  The lookup of the datacenter that opens the read and the delete callbacks: by name
  when \<^verbatim>\<open>d.GetOk("datacenter")\<close> finds one (a string that is set and not empty), the
  default datacenter otherwise. The result is the event and the answer.
\<close>

definition findDatacenter :: "platform \<Rightarrow> ResourceData \<Rightarrow> event \<times> (error + string)" where
  "findDatacenter p d =
     (if cfg_datacenter d \<noteq> []
      then (FinderDatacenter (cfg_datacenter d), finder_Datacenter p (cfg_datacenter d))
      else (FinderDefaultDatacenter, finder_DefaultDatacenter p))"

text \<open>
  \<^verbatim>\<open>resourceVSphereVirtualMachineRead\<close>. The result is how the callback ends, the
  resource data it leaves and the events in order; \<open>None\<close> when it does not end.
\<close>

definition resourceVSphereVirtualMachineRead ::
  "platform \<Rightarrow> ResourceData \<Rightarrow> (outcome \<times> ResourceData \<times> event list) option" where
  "resourceVSphereVirtualMachineRead p d =
     (case findDatacenter p d of
        (e1, Inl err) \<Rightarrow> Some (Return (Some err), d, [e1])
      | (e1, Inr dc) \<Rightarrow>
          (case finder_VirtualMachine p dc (cfg_name d) of
             Inl err \<Rightarrow>
               Some (Return None, SetId [] d, [e1, FinderVirtualMachine dc (cfg_name d)])
           | Inr vm \<Rightarrow>
               let s = RetrieveOne p vm
                         \<lparr>mvm = zeroSummary,
                          calls = [e1, FinderVirtualMachine dc (cfg_name d)],
                          retrieved = 0\<rparr>;
                   d' = Set ''cpu'' (SInt (Config_NumCpu (mvm s)))
                          (Set ''memory'' (SInt (Config_MemorySizeMB (mvm s)))
                             (Set ''datacenter'' (SDatacenter dc) d))
               in (case resolveAddress p d' vm s of
                     None \<Rightarrow> None
                   | Some (Inl u) \<Rightarrow> Some (Panic, d', calls s)
                   | Some (Inr (ip_address, s')) \<Rightarrow>
                       Some (Return None,
                             SetConnInfo [(''host'', ip_address)]
                               (Set ''ip_address'' (SString ip_address) d'),
                             calls s'))))"

subsection \<open>Updating\<close>

text \<open>\<^verbatim>\<open>resourceVSphereVirtualMachineUpdate\<close>: \<^verbatim>\<open>return nil\<close>.\<close>

definition resourceVSphereVirtualMachineUpdate ::
  "platform \<Rightarrow> ResourceData \<Rightarrow> outcome \<times> ResourceData \<times> event list" where
  "resourceVSphereVirtualMachineUpdate p d = (Return None, d, [])"

subsection \<open>Deleting\<close>

text \<open>\<^verbatim>\<open>resourceVSphereVirtualMachineDelete\<close>. It has no loop and no dereference.\<close>

definition resourceVSphereVirtualMachineDelete ::
  "platform \<Rightarrow> ResourceData \<Rightarrow> outcome \<times> ResourceData \<times> event list" where
  "resourceVSphereVirtualMachineDelete p d =
     (case findDatacenter p d of
        (e1, Inl err) \<Rightarrow> (Return (Some err), d, [e1])
      | (e1, Inr dc) \<Rightarrow>
          (case finder_VirtualMachine p dc (cfg_name d) of
             Inl err \<Rightarrow> (Return (Some err), d, [e1, FinderVirtualMachine dc (cfg_name d)])
           | Inr vm \<Rightarrow>
               (case vm_PowerOff p vm of
                  Inl err \<Rightarrow>
                    (Return (Some err), d,
                     [e1, FinderVirtualMachine dc (cfg_name d), PowerOff vm])
                | Inr task \<Rightarrow>
                    (case task_Wait p task of
                       Some err \<Rightarrow>
                         (Return (Some err), d,
                          [e1, FinderVirtualMachine dc (cfg_name d), PowerOff vm, TaskWait task])
                     | None \<Rightarrow>
                         (case vm_Destroy p vm of
                            Inl err \<Rightarrow>
                              (Return (Some err), d,
                               [e1, FinderVirtualMachine dc (cfg_name d), PowerOff vm,
                                TaskWait task, Destroy vm])
                          | Inr task' \<Rightarrow>
                              (case task_Wait p task' of
                                 Some err \<Rightarrow>
                                   (Return (Some err), d,
                                    [e1, FinderVirtualMachine dc (cfg_name d), PowerOff vm,
                                     TaskWait task, Destroy vm, TaskWait task'])
                               | None \<Rightarrow>
                                   (Return None, SetId [] d,
                                    [e1, FinderVirtualMachine dc (cfg_name d), PowerOff vm,
                                     TaskWait task, Destroy vm, TaskWait task'])))))))"


subsection \<open>Creating the virtual machine\<close>

text \<open>
  The first part of \<^verbatim>\<open>resourceVSphereVirtualMachineCreate\<close> (lines 192 to 242): the
  struct literal, the optional strings (\<^verbatim>\<open>d.GetOk\<close> finds a string that is set and
  not empty) and the two DNS lists, copied element by element or defaulted.
\<close>

definition initVirtualMachine :: "ResourceData \<Rightarrow> virtualMachine" where
  "initVirtualMachine d =
     \<lparr>name = cfg_name d, vcpu = cfg_vcpu d, memoryMb = cfg_memory d,
      datacenter = (if cfg_datacenter d \<noteq> [] then cfg_datacenter d else []),
      cluster = (if cfg_cluster d \<noteq> [] then cfg_cluster d else []),
      resourcePool = (if cfg_resource_pool d \<noteq> [] then cfg_resource_pool d else []),
      gateway = (if cfg_gateway d \<noteq> [] then cfg_gateway d else []),
      domain = (if cfg_domain d \<noteq> [] then cfg_domain d else []),
      timeZone = (if cfg_time_zone d \<noteq> [] then cfg_time_zone d else []),
      dnsSuffixes =
        (if length (cfg_dns_suffix d) > 0
         then map (\<lambda>i. cfg_dns_suffix d ! i) [0..<length (cfg_dns_suffix d)]
         else DefaultDNSSuffixes),
      dnsServers =
        (if length (cfg_dns_server d) > 0
         then map (\<lambda>i. cfg_dns_server d ! i) [0..<length (cfg_dns_server d)]
         else DefaultDNSServers),
      networkInterfaces = [], template = [], datastore = [], hardDisks = []\<rparr>"

text \<open>
  The body of the loop over the network interfaces (lines 246 to 253): the element
  \<^verbatim>\<open>networks[i]\<close>.
\<close>

definition initNetworkInterface :: "ResourceData \<Rightarrow> nat \<Rightarrow> networkInterface" where
  "initNetworkInterface d i =
     (if IString (ni_ip_address (GetNetworkInterface d i)) \<noteq> INil
      then \<lparr>label = ni_label (GetNetworkInterface d i),
            ipAddress = ni_ip_address (GetNetworkInterface d i),
            subnetMask = ni_subnet_mask (GetNetworkInterface d i)\<rparr>
      else \<lparr>label = ni_label (GetNetworkInterface d i), ipAddress = [], subnetMask = []\<rparr>)"

text \<open>
  The body of the loop over the disks (lines 260 to 283), for the index \<open>i\<close>: the
  specification and the array \<^verbatim>\<open>disks\<close> after the body, or the error it returns.
  \<^verbatim>\<open>d.Get(prefix + ".size")\<close> and \<^verbatim>\<open>d.Get(prefix + ".iops")\<close> are integers
  (\<^verbatim>\<open>TypeInt\<close>; the next line asserts \<^verbatim>\<open>.(int)\<close>), and they are compared with the
  string \<^verbatim>\<open>""\<close>.
\<close>

definition diskBody ::
  "ResourceData \<Rightarrow> nat \<Rightarrow> virtualMachine \<times> hardDisk list \<Rightarrow> error + virtualMachine \<times> hardDisk list"
  where
  "diskBody d i st =
     (case
        (if i = 0
         then (case
                 (if IString (disk_template (GetDisk d i)) \<noteq> IString []
                  then Inr (fst st\<lparr>template := disk_template (GetDisk d i)\<rparr>, snd st)
                  else if IInt (schemaInt (disk_size (GetDisk d i))) \<noteq> IString []
                  then Inr (fst st,
                            (snd st)[i := (snd st ! i)\<lparr>size' := schemaInt (disk_size (GetDisk d i))\<rparr>])
                  else Inl ''If template argument is not specified, size argument is required.'')
               of
                 Inl err \<Rightarrow> Inl err
               | Inr (vm, disks) \<Rightarrow>
                   Inr (if IString (disk_datastore (GetDisk d i)) \<noteq> IString []
                        then vm\<lparr>datastore := disk_datastore (GetDisk d i)\<rparr>
                        else vm,
                        disks))
         else if IInt (schemaInt (disk_size (GetDisk d i))) \<noteq> IString []
         then Inr (fst st,
                   (snd st)[i := (snd st ! i)\<lparr>size' := schemaInt (disk_size (GetDisk d i))\<rparr>])
         else Inl ''Size argument is required.'')
      of
        Inl err \<Rightarrow> Inl err
      | Inr (vm, disks) \<Rightarrow>
          Inr (vm,
               if IInt (schemaInt (disk_iops (GetDisk d i))) \<noteq> IString []
               then disks[i := (disks ! i)\<lparr>iops := schemaInt (disk_iops (GetDisk d i))\<rparr>]
               else disks))"

text \<open>\<^verbatim>\<open>for i := 0; i < diskCount; i++\<close>, from the index \<open>i\<close> on.\<close>

function diskLoop ::
  "ResourceData \<Rightarrow> nat \<Rightarrow> virtualMachine \<times> hardDisk list \<Rightarrow> error + virtualMachine \<times> hardDisk list"
  where
  "diskLoop d i st =
     (if i < length (cfg_disk d)
      then (case diskBody d i st of
              Inl err \<Rightarrow> Inl err
            | Inr st' \<Rightarrow> diskLoop d (Suc i) st')
      else Inr st)"
  by pat_completeness auto
termination
  by (relation "measure (\<lambda>(d, i, st). length (cfg_disk d) - i)") auto

declare diskLoop.simps [simp del]

text \<open>
  Lines 192 to 286: the specification that is handed to the platform, or the error of
  the disk loop.
\<close>

definition buildVirtualMachine :: "ResourceData \<Rightarrow> error + virtualMachine" where
  "buildVirtualMachine d =
     (case diskLoop d 0
             ((initVirtualMachine d)
                \<lparr>networkInterfaces :=
                   map (initNetworkInterface d) [0..<length (cfg_network_interface d)]\<rparr>,
              replicate (length (cfg_disk d)) \<lparr>size' = 0, iops = 0\<rparr>) of
        Inl err \<Rightarrow> Inl err
      | Inr (vm, disks) \<Rightarrow> Inr (vm\<lparr>hardDisks := disks\<rparr>))"

text \<open>
  Lines 299 to 302, after the platform has made the machine: the identity is set to the
  name, and the result is the result of the read.
\<close>

definition createdThenRead ::
  "platform \<Rightarrow> ResourceData \<Rightarrow> virtualMachine \<Rightarrow> event \<Rightarrow>
   (outcome \<times> ResourceData \<times> event list) option" where
  "createdThenRead p d vm e =
     (case resourceVSphereVirtualMachineRead p (SetId (name vm) d) of
        None \<Rightarrow> None
      | Some (out, d', es) \<Rightarrow> Some (out, d', e # es))"

text \<open>\<^verbatim>\<open>resourceVSphereVirtualMachineCreate\<close>.\<close>

definition resourceVSphereVirtualMachineCreate ::
  "platform \<Rightarrow> ResourceData \<Rightarrow> (outcome \<times> ResourceData \<times> event list) option" where
  "resourceVSphereVirtualMachineCreate p d =
     (case buildVirtualMachine d of
        Inl err \<Rightarrow> Some (Return (Some err), d, [])
      | Inr vm \<Rightarrow>
          if template vm \<noteq> []
          then (case vm_deployVirtualMachine p vm of
                  Some err \<Rightarrow>
                    Some (Return (Some (''error: '' @ err)), d, [DeployVirtualMachine vm])
                | None \<Rightarrow> createdThenRead p d vm (DeployVirtualMachine vm))
          else (case vm_createVirtualMachine p vm of
                  Some err \<Rightarrow>
                    Some (Return (Some (''error: '' @ err)), d, [CreateVirtualMachine vm])
                | None \<Rightarrow> createdThenRead p d vm (CreateVirtualMachine vm)))"


subsection \<open>A platform and a resource to run the callbacks on\<close>

text \<open>
  A machine \<^verbatim>\<open>vm1\<close> that booted at second 100, read at second 110. The collector
  reports no guest address in its first three answers and \<^verbatim>\<open>10.0.0.5\<close> from the
  fourth on.
\<close>

definition summaryAt :: "string \<Rightarrow> VirtualMachineSummary" where
  "summaryAt ip =
     \<lparr>Config_MemorySizeMB = 2048, Config_NumCpu = 2,
      Runtime_BootTime = Some 100000000000, Guest_IpAddress = ip\<rparr>"

definition platform1 :: platform where
  "platform1 =
     \<lparr>finder_Datacenter = (\<lambda>n. Inr n),
      finder_DefaultDatacenter = Inr ''ha-datacenter'',
      finder_VirtualMachine =
        (\<lambda>dc n. if n = ''vm1'' then Inr ''vm-42'' else Inl ''vm not found''),
      collector_RetrieveOne =
        (\<lambda>n vm. if n < 3 then Inr (summaryAt []) else Inr (summaryAt ''10.0.0.5'')),
      vm_PowerOff = (\<lambda>vm. Inr ''task-1''),
      vm_Destroy = (\<lambda>vm. Inr ''task-2''),
      task_Wait = (\<lambda>t. None),
      time_Now = 110000000000,
      vm_deployVirtualMachine = (\<lambda>vm. None),
      vm_createVirtualMachine = (\<lambda>vm. None)\<rparr>"

text \<open>
  The resource of the machine: one interface on DHCP, one disk of 20480 with no
  template, a boot delay of 30 seconds.
\<close>

definition d1 :: ResourceData where
  "d1 =
     \<lparr>Id = ''vm1'', cfg_name = ''vm1'', cfg_boot_delay = 30, cfg_vcpu = 2, cfg_memory = 2048,
      cfg_datacenter = [], cfg_cluster = [], cfg_resource_pool = [], cfg_gateway = [],
      cfg_domain = ''vsphere.local'', cfg_time_zone = ''Etc/UTC'',
      cfg_dns_suffix = [], cfg_dns_server = [],
      cfg_network_interface =
        [\<lparr>ni_label = ''eth0'', ni_ip_address = [], ni_subnet_mask = [], ni_adapter_type = []\<rparr>],
      cfg_disk =
        [\<lparr>disk_template = [], disk_datastore = [], disk_size = Some 20480, disk_iops = None\<rparr>],
      written = [], ConnInfo = []\<rparr>"

text \<open>The same resource with a static address on the first interface.\<close>

definition dStatic :: ResourceData where
  "dStatic =
     d1\<lparr>cfg_network_interface :=
          [\<lparr>ni_label = ''eth0'', ni_ip_address = ''10.0.0.9'',
            ni_subnet_mask = ''255.255.255.0'', ni_adapter_type = []\<rparr>]\<rparr>"

text \<open>The same resource with no boot delay (the value of a \<^verbatim>\<open>boot_delay\<close> not set).\<close>

definition dNoDelay :: ResourceData where
  "dNoDelay = d1\<lparr>cfg_boot_delay := 0\<rparr>"

text \<open>
  A new resource (no identity yet) whose only disk has neither a template nor a size,
  and the specification the create callback builds from it.
\<close>

definition dNoSize :: ResourceData where
  "dNoSize =
     d1\<lparr>Id := [],
        cfg_disk :=
          [\<lparr>disk_template = [], disk_datastore = [], disk_size = None, disk_iops = None\<rparr>]\<rparr>"

definition vmNoSize :: virtualMachine where
  "vmNoSize =
     \<lparr>name = ''vm1'', vcpu = 2, memoryMb = 2048, datacenter = [], cluster = [],
      resourcePool = [], gateway = [], domain = ''vsphere.local'', timeZone = ''Etc/UTC'',
      dnsSuffixes = [''vsphere.local''], dnsServers = [''8.8.8.8'', ''8.8.4.4''],
      networkInterfaces = [\<lparr>label = ''eth0'', ipAddress = [], subnetMask = []\<rparr>],
      template = [], datastore = [], hardDisks = [\<lparr>size' = 0, iops = 0\<rparr>]\<rparr>"

text \<open>
  Variants of the platform: every retrieval fails; the first retrieval reports the
  address \<^verbatim>\<open>10.0.0.7\<close> and every later one fails; there is no default datacenter;
  the platform refuses to create the machine.
\<close>

definition platformOffline :: platform where
  "platformOffline = platform1\<lparr>collector_RetrieveOne := \<lambda>n vm. Inl ''connection lost''\<rparr>"

definition platformFlaky :: platform where
  "platformFlaky =
     platform1\<lparr>collector_RetrieveOne :=
       \<lambda>n vm. if n = 0 then Inr (summaryAt ''10.0.0.7'') else Inl ''connection lost''\<rparr>"

definition platformNoDatacenter :: platform where
  "platformNoDatacenter = platform1\<lparr>finder_DefaultDatacenter := Inl ''no default datacenter''\<rparr>"

definition platformNoQuota :: platform where
  "platformNoQuota = platform1\<lparr>vm_createVirtualMachine := \<lambda>vm. Some ''quota exceeded''\<rparr>"

lemmas ex_defs = platform1_def d1_def summaryAt_def dStatic_def dNoDelay_def dNoSize_def
  vmNoSize_def platformOffline_def platformFlaky_def platformNoDatacenter_def platformNoQuota_def

section \<open>Deleting\<close>

text \<open>
  Claim C5. For every delete, the power-off task is submitted and awaited before the
  destroy task is submitted: when the events of a delete contain the destroy of a
  machine, they are the two lookups, the power-off of that machine, the wait for the
  power-off task, and then the destroy, and both the power-off and its wait have
  succeeded. When the power-off of the machine or the wait for its task fails, no
  destroy is submitted at all, and the delete returns that error.
\<close>

theorem delete_power_off_before_destroy:
  assumes "resourceVSphereVirtualMachineDelete p d = (out, d', es)"
  shows "(Destroy v \<in> set es \<longrightarrow>
           (\<exists>e1 dc task post.
              es = [e1, FinderVirtualMachine dc (cfg_name d), PowerOff v, TaskWait task, Destroy v]
                     @ post
              \<and> vm_PowerOff p v = Inr task \<and> task_Wait p task = None))
       \<and> (PowerOff v \<in> set es \<longrightarrow>
           (vm_PowerOff p v = Inl err
              \<or> (vm_PowerOff p v = Inr task \<and> task_Wait p task = Some err)) \<longrightarrow>
           (\<forall>v'. Destroy v' \<notin> set es) \<and> out = Return (Some err))"
  using assms
  by (auto simp: resourceVSphereVirtualMachineDelete_def findDatacenter_def
      split: sum.splits option.splits if_splits prod.splits)

theorem delete_power_off_before_destroy_witness:
  "resourceVSphereVirtualMachineDelete platform1 d1 =
     (Return None, SetId [] d1,
      [FinderDefaultDatacenter, FinderVirtualMachine ''ha-datacenter'' ''vm1'',
       PowerOff ''vm-42'', TaskWait ''task-1'', Destroy ''vm-42'', TaskWait ''task-2''])
   \<and> vm_PowerOff platform1 ''vm-42'' = Inr ''task-1'' \<and> task_Wait platform1 ''task-1'' = None
   \<and> resourceVSphereVirtualMachineDelete (platform1\<lparr>vm_PowerOff := \<lambda>vm. Inl ''busy''\<rparr>) d1 =
     (Return (Some ''busy''), d1,
      [FinderDefaultDatacenter, FinderVirtualMachine ''ha-datacenter'' ''vm1'', PowerOff ''vm-42''])"
proof -
  have run: "resourceVSphereVirtualMachineDelete platform1 d1 =
     (Return None, SetId [] d1,
      [FinderDefaultDatacenter, FinderVirtualMachine ''ha-datacenter'' ''vm1'',
       PowerOff ''vm-42'', TaskWait ''task-1'', Destroy ''vm-42'', TaskWait ''task-2''])"
    by (simp add: resourceVSphereVirtualMachineDelete_def findDatacenter_def ex_defs)
  have run': "resourceVSphereVirtualMachineDelete (platform1\<lparr>vm_PowerOff := \<lambda>vm. Inl ''busy''\<rparr>) d1 =
     (Return (Some ''busy''), d1,
      [FinderDefaultDatacenter, FinderVirtualMachine ''ha-datacenter'' ''vm1'', PowerOff ''vm-42''])"
    by (simp add: resourceVSphereVirtualMachineDelete_def findDatacenter_def ex_defs)
  show ?thesis
    using delete_power_off_before_destroy [OF run, of "''vm-42''"]
      delete_power_off_before_destroy [OF run', of "''vm-42''" "''busy''"]
      run run'
    by (simp add: platform1_def)
qed

text \<open>
  Claim C8. A delete that returns an error leaves the resource data, and so the tracked
  identity, as it was. A delete that returns no error has cleared the identity, and
  then every step has succeeded: the two lookups, the power-off and its wait, the
  destroy and its wait.
\<close>

theorem delete_keeps_identity_on_error:
  assumes "resourceVSphereVirtualMachineDelete p d = (Return r, d', es)"
  shows "(r \<noteq> None \<longrightarrow> d' = d)
       \<and> (r = None \<longrightarrow>
            Id d' = [] \<and>
            (\<exists>dc vm task task'.
               snd (findDatacenter p d) = Inr dc
               \<and> finder_VirtualMachine p dc (cfg_name d) = Inr vm
               \<and> vm_PowerOff p vm = Inr task \<and> task_Wait p task = None
               \<and> vm_Destroy p vm = Inr task' \<and> task_Wait p task' = None))"
proof (cases "findDatacenter p d")
  case (Pair e1 r1)
  with assms show ?thesis
    by (cases r1;
        cases "task_Wait p (projr (vm_PowerOff p
                 (projr (finder_VirtualMachine p (projr r1) (cfg_name d)))))")
       (auto simp: resourceVSphereVirtualMachineDelete_def SetId_def
             split: sum.splits option.splits)
qed

theorem delete_keeps_identity_on_error_witness:
  "resourceVSphereVirtualMachineDelete (platform1\<lparr>vm_Destroy := \<lambda>vm. Inl ''in use''\<rparr>) d1 =
     (Return (Some ''in use''), d1,
      [FinderDefaultDatacenter, FinderVirtualMachine ''ha-datacenter'' ''vm1'',
       PowerOff ''vm-42'', TaskWait ''task-1'', Destroy ''vm-42''])
   \<and> Id d1 = ''vm1''
   \<and> fst (snd (resourceVSphereVirtualMachineDelete platform1 d1)) = d1\<lparr>Id := []\<rparr>"
proof -
  have failed: "resourceVSphereVirtualMachineDelete (platform1\<lparr>vm_Destroy := \<lambda>vm. Inl ''in use''\<rparr>) d1 =
     (Return (Some ''in use''), d1,
      [FinderDefaultDatacenter, FinderVirtualMachine ''ha-datacenter'' ''vm1'',
       PowerOff ''vm-42'', TaskWait ''task-1'', Destroy ''vm-42''])"
    by (simp add: resourceVSphereVirtualMachineDelete_def findDatacenter_def ex_defs)
  have cleared: "resourceVSphereVirtualMachineDelete platform1 d1 =
     (Return None, d1\<lparr>Id := []\<rparr>,
      [FinderDefaultDatacenter, FinderVirtualMachine ''ha-datacenter'' ''vm1'',
       PowerOff ''vm-42'', TaskWait ''task-1'', Destroy ''vm-42'', TaskWait ''task-2''])"
    by (simp add: resourceVSphereVirtualMachineDelete_def findDatacenter_def SetId_def ex_defs)
  show ?thesis
    using delete_keeps_identity_on_error [OF failed] delete_keeps_identity_on_error [OF cleared]
      failed cleared
    by (simp add: d1_def)
qed

section \<open>Reading\<close>

subsection \<open>The parts of the read\<close>

text \<open>Writing an attribute changes nothing that the read looks up afterwards.\<close>

lemma findDatacenter_Set [simp]: "findDatacenter p (Set k v d) = findDatacenter p d"
  by (simp add: findDatacenter_def Set_def)

lemma GetNetworkInterface_Set [simp]: "GetNetworkInterface (Set k v d) i = GetNetworkInterface d i"
  by (simp add: GetNetworkInterface_def Set_def)

lemma remaining_boot_delay_Set [simp]:
  "remaining_boot_delay p (Set k v d) bt = remaining_boot_delay p d bt"
  by (simp add: remaining_boot_delay_def Set_def)

lemma findDatacenter_collector [simp]:
  "findDatacenter (p\<lparr>collector_RetrieveOne := c\<rparr>) d = findDatacenter p d"
  by (simp add: findDatacenter_def)

text \<open>The read once both lookups have succeeded.\<close>

lemma read_found:
  assumes "snd (findDatacenter p d) = Inr dc"
    and "finder_VirtualMachine p dc (cfg_name d) = Inr vm"
  shows "resourceVSphereVirtualMachineRead p d =
     (let s = RetrieveOne p vm
                \<lparr>mvm = zeroSummary,
                 calls = [fst (findDatacenter p d), FinderVirtualMachine dc (cfg_name d)],
                 retrieved = 0\<rparr>;
          d' = Set ''cpu'' (SInt (Config_NumCpu (mvm s)))
                 (Set ''memory'' (SInt (Config_MemorySizeMB (mvm s)))
                    (Set ''datacenter'' (SDatacenter dc) d))
      in (case resolveAddress p d' vm s of
            None \<Rightarrow> None
          | Some (Inl u) \<Rightarrow> Some (Panic, d', calls s)
          | Some (Inr (ip_address, s')) \<Rightarrow>
              Some (Return None,
                    SetConnInfo [(''host'', ip_address)]
                      (Set ''ip_address'' (SString ip_address) d'),
                    calls s')))"
  using assms
  by (cases "findDatacenter p d") (simp add: resourceVSphereVirtualMachineRead_def)

text \<open>The only error a read returns is the error of the datacenter lookup.\<close>

lemma read_error_is_lookup:
  assumes "resourceVSphereVirtualMachineRead p d = Some (Return (Some err), d', es)"
  shows "findDatacenter p d = (hd es, Inl err) \<and> es = [hd es] \<and> d' = d"
  using assms
  by (cases "findDatacenter p d")
     (auto simp: resourceVSphereVirtualMachineRead_def Let_def
           split: sum.splits option.splits prod.splits)

lemma read_returned_error:
  assumes "resourceVSphereVirtualMachineRead p d = Some (Return r, d', es)"
  shows "r = (case snd (findDatacenter p d) of Inl err \<Rightarrow> Some err | Inr dc \<Rightarrow> None)"
  using assms
  by (cases "findDatacenter p d")
     (auto simp: resourceVSphereVirtualMachineRead_def Let_def
           split: sum.splits option.splits prod.splits)

text \<open>The two branches of the address resolution that make no call.\<close>

lemma resolveAddress_static:
  "ni_ip_address (GetNetworkInterface d 0) \<noteq> [] \<Longrightarrow>
   resolveAddress p d vm s = Some (Inr (ni_ip_address (GetNetworkInterface d 0), s))"
  by (simp add: resolveAddress_def)

lemma resolveAddress_elapsed:
  "ni_ip_address (GetNetworkInterface d 0) = [] \<Longrightarrow> Runtime_BootTime (mvm s) = Some bt \<Longrightarrow>
   remaining_boot_delay p d bt \<le> 0 \<Longrightarrow>
   resolveAddress p d vm s = Some (Inr (Guest_IpAddress (mvm s), s))"
  by (simp add: resolveAddress_def dhcpAddress_def)

text \<open>
  The retry loop: it ends at once on an address that is not empty, and otherwise
  retrieves, sleeps a second and goes on. When the next \<open>k\<close> retrievals report no
  address and the one after them does, the loop makes \<open>k + 1\<close> retrievals and ends
  with the last one's address.
\<close>

lemma retryLoop_nonempty: "ip \<noteq> [] \<Longrightarrow> retryLoop p vm (ip, s) = Some (ip, s)"
  by (subst retryLoop.simps) simp

lemma retryLoop_empty:
  "retryLoop p vm ([], s) =
     retryLoop p vm (Guest_IpAddress (mvm (RetrieveOne p vm s)), delaySecond 1 (RetrieveOne p vm s))"
  by (subst retryLoop.simps) simp

lemma retryLoop_run:
  fixes s :: session
  assumes "\<forall>j<k. \<exists>sm. collector_RetrieveOne p (retrieved s + j) vm = Inr sm \<and> Guest_IpAddress sm = []"
    and "collector_RetrieveOne p (retrieved s + k) vm = Inr found"
    and "Guest_IpAddress found \<noteq> []"
  shows "retryLoop p vm ([], s) =
           Some (Guest_IpAddress found,
                 \<lparr>mvm = found,
                  calls = calls s @ concat (replicate (Suc k) [CollectorRetrieveOne vm, DelaySecond 1]),
                  retrieved = retrieved s + Suc k\<rparr>)"
  using assms
proof (induction k arbitrary: s)
  case 0
  then show ?case
    by (simp add: retryLoop_empty retryLoop_nonempty RetrieveOne_def delaySecond_def)
next
  case (Suc k)
  let ?s1 = "delaySecond 1 (RetrieveOne p vm s)"
  from Suc.prems(1) obtain sm where first: "collector_RetrieveOne p (retrieved s) vm = Inr sm"
    "Guest_IpAddress sm = []"
    by force
  have r1: "retrieved ?s1 = Suc (retrieved s)" and c1: "calls ?s1 = calls s @ [CollectorRetrieveOne vm, DelaySecond 1]"
    by (simp_all add: RetrieveOne_def delaySecond_def)
  have step: "retryLoop p vm ([], s) = retryLoop p vm ([], ?s1)"
    using first by (subst retryLoop_empty) (simp add: RetrieveOne_def)
  have "\<forall>j<k. \<exists>sm. collector_RetrieveOne p (retrieved ?s1 + j) vm = Inr sm \<and> Guest_IpAddress sm = []"
  proof (intro allI impI)
    fix j assume "j < k"
    then have "Suc j < Suc k" by simp
    with Suc.prems(1) show "\<exists>sm. collector_RetrieveOne p (retrieved ?s1 + j) vm = Inr sm \<and> Guest_IpAddress sm = []"
      unfolding r1 by (metis add_Suc_shift add_Suc)
  qed
  moreover have "collector_RetrieveOne p (retrieved ?s1 + k) vm = Inr found"
    using Suc.prems(2) by (simp add: r1)
  ultimately have "retryLoop p vm ([], ?s1) =
      Some (Guest_IpAddress found,
            \<lparr>mvm = found,
             calls = calls ?s1 @ concat (replicate (Suc k) [CollectorRetrieveOne vm, DelaySecond 1]),
             retrieved = retrieved ?s1 + Suc k\<rparr>)"
    using Suc.prems(3) by (rule Suc.IH)
  then show ?case
    by (simp add: step r1 c1)
qed

lemma dhcpAddress_waits:
  assumes "Runtime_BootTime (mvm s) = Some BootTime"
    and "remaining_boot_delay p d BootTime > 0"
    and "retryLoop p vm
           (Guest_IpAddress (mvm (RetrieveOne p vm (delaySecond \<lfloor>remaining_boot_delay p d BootTime\<rfloor> s))),
            RetrieveOne p vm (delaySecond \<lfloor>remaining_boot_delay p d BootTime\<rfloor> s)) = Some (ip, s')"
  shows "dhcpAddress p d vm s = Some (Inr (Guest_IpAddress (mvm s'), s'))"
  using assms by (simp add: dhcpAddress_def)

text \<open>
  A retrieval that fails leaves the summary as it was: the zero value when it is the
  first retrieval, the summary of the first retrieval when it is the refresh after the
  boot delay.
\<close>

lemma read_zero_after_failed_fetch:
  assumes "snd (findDatacenter p d) = Inr dc"
    and "finder_VirtualMachine p dc (cfg_name d) = Inr vm"
    and "ni_ip_address (GetNetworkInterface d 0) \<noteq> []"
    and "collector_RetrieveOne p 0 vm = Inl e"
  shows "resourceVSphereVirtualMachineRead p d =
           Some (Return None,
                 d\<lparr>written := written d @
                      [(''datacenter'', SDatacenter dc), (''memory'', SInt 0), (''cpu'', SInt 0),
                       (''ip_address'', SString (ni_ip_address (GetNetworkInterface d 0)))],
                   ConnInfo := [(''host'', ni_ip_address (GetNetworkInterface d 0))]\<rparr>,
                 [fst (findDatacenter p d), FinderVirtualMachine dc (cfg_name d),
                  CollectorRetrieveOne vm])"
  using assms
  apply (simp add: read_found Let_def resolveAddress_static)
  apply (simp add: RetrieveOne_def Set_def SetConnInfo_def zeroSummary_def)
  done

lemma read_stale_after_failed_refresh:
  assumes "snd (findDatacenter p d) = Inr dc"
    and "finder_VirtualMachine p dc (cfg_name d) = Inr vm"
    and "ni_ip_address (GetNetworkInterface d 0) = []"
    and "collector_RetrieveOne p 0 vm = Inr summary"
    and "Runtime_BootTime summary = Some BootTime"
    and "remaining_boot_delay p d BootTime > 0"
    and "Guest_IpAddress summary \<noteq> []"
    and "collector_RetrieveOne p (Suc 0) vm = Inl e"
  shows "resourceVSphereVirtualMachineRead p d =
           Some (Return None,
                 d\<lparr>written := written d @
                      [(''datacenter'', SDatacenter dc),
                       (''memory'', SInt (Config_MemorySizeMB summary)),
                       (''cpu'', SInt (Config_NumCpu summary)),
                       (''ip_address'', SString (Guest_IpAddress summary))],
                   ConnInfo := [(''host'', Guest_IpAddress summary)]\<rparr>,
                 [fst (findDatacenter p d), FinderVirtualMachine dc (cfg_name d),
                  CollectorRetrieveOne vm, DelaySecond \<lfloor>remaining_boot_delay p d BootTime\<rfloor>,
                  CollectorRetrieveOne vm])"
proof -
  let ?s0 = "RetrieveOne p vm
              \<lparr>mvm = zeroSummary,
               calls = [fst (findDatacenter p d), FinderVirtualMachine dc (cfg_name d)],
               retrieved = 0\<rparr>"
  let ?d' = "Set ''cpu'' (SInt (Config_NumCpu summary))
             (Set ''memory'' (SInt (Config_MemorySizeMB summary))
                (Set ''datacenter'' (SDatacenter dc) d))"
  let ?n = "\<lfloor>remaining_boot_delay p d BootTime\<rfloor>"
  let ?s1 = "RetrieveOne p vm (delaySecond ?n ?s0)"
  have fetched: "mvm ?s0 = summary"
    using assms(4) by (simp add: RetrieveOne_def)
  have stale: "mvm ?s1 = summary"
    using assms(4,8) by (simp add: RetrieveOne_def delaySecond_def)
  have loop: "retryLoop p vm (Guest_IpAddress (mvm ?s1), ?s1) = Some (Guest_IpAddress summary, ?s1)"
    unfolding stale using assms(7) by (rule retryLoop_nonempty)
  have "dhcpAddress p ?d' vm ?s0 = Some (Inr (Guest_IpAddress (mvm ?s1), ?s1))"
    by (rule dhcpAddress_waits [where BootTime = BootTime and ip = "Guest_IpAddress summary"])
       (use assms(5,6) fetched loop in simp_all)
  then have "resolveAddress p ?d' vm ?s0 = Some (Inr (Guest_IpAddress summary, ?s1))"
    using assms(3) stale by (simp add: resolveAddress_def)
  then show ?thesis
    using assms(1,2) fetched
    apply (simp add: read_found Let_def)
    apply (simp add: Set_def SetConnInfo_def RetrieveOne_def delaySecond_def)
    done
qed

lemma remaining_d1: "remaining_boot_delay platform1 d1 100000000000 = 20"
  by (simp add: remaining_boot_delay_def Seconds_def ex_defs)

subsection \<open>The machine is not found\<close>

text \<open>
  Claim C6. When the datacenter is found and the name of the machine is not found in
  it, the read clears the tracked identity and returns no error; it leaves the rest of
  the resource data as it was and makes no call after the failed lookup.
\<close>

theorem read_not_found_clears_identity:
  assumes "snd (findDatacenter p d) = Inr dc"
    and "finder_VirtualMachine p dc (cfg_name d) = Inl err"
  shows "resourceVSphereVirtualMachineRead p d =
           Some (Return None, d\<lparr>Id := []\<rparr>,
                 [fst (findDatacenter p d), FinderVirtualMachine dc (cfg_name d)])"
  using assms
  by (cases "findDatacenter p d") (simp add: resourceVSphereVirtualMachineRead_def SetId_def)

theorem read_not_found_clears_identity_witness:
  "resourceVSphereVirtualMachineRead platform1 (d1\<lparr>cfg_name := ''ghost''\<rparr>) =
     Some (Return None, d1\<lparr>cfg_name := ''ghost'', Id := []\<rparr>,
           [FinderDefaultDatacenter, FinderVirtualMachine ''ha-datacenter'' ''ghost''])"
proof -
  have dc: "snd (findDatacenter platform1 (d1\<lparr>cfg_name := ''ghost''\<rparr>)) = Inr ''ha-datacenter''"
    by (simp add: findDatacenter_def ex_defs)
  have vm: "finder_VirtualMachine platform1 ''ha-datacenter'' (cfg_name (d1\<lparr>cfg_name := ''ghost''\<rparr>))
              = Inl ''vm not found''"
    by (simp add: ex_defs)
  show ?thesis
    using read_not_found_clears_identity [OF dc vm]
    by (simp add: findDatacenter_def ex_defs)
qed

subsection \<open>A static address\<close>

text \<open>
  Claim C7. When the first network interface has a static address, the address
  resolution returns it and leaves the session as it was: it makes no retrieval and
  no wait. The whole read then consists of the two lookups and the one retrieval of
  the summary that precedes the address resolution (for the memory and the CPU count);
  it writes the static address as \<^verbatim>\<open>ip_address\<close> and as the host of the connection
  info, and returns no error.
\<close>

theorem read_static_address_no_polling:
  assumes "snd (findDatacenter p d) = Inr dc"
    and "finder_VirtualMachine p dc (cfg_name d) = Inr vm"
    and "ni_ip_address (GetNetworkInterface d 0) \<noteq> []"
  shows "resolveAddress p d vm s = Some (Inr (ni_ip_address (GetNetworkInterface d 0), s))
       \<and> (\<exists>d'. resourceVSphereVirtualMachineRead p d =
                  Some (Return None, d',
                        [fst (findDatacenter p d), FinderVirtualMachine dc (cfg_name d),
                         CollectorRetrieveOne vm])
              \<and> last (written d') =
                  (''ip_address'', SString (ni_ip_address (GetNetworkInterface d 0)))
              \<and> ConnInfo d' = [(''host'', ni_ip_address (GetNetworkInterface d 0))])"
  using assms
  apply (simp add: read_found Let_def resolveAddress_static)
  apply (simp add: RetrieveOne_def Set_def SetConnInfo_def)
  done

theorem read_static_address_no_polling_witness:
  "ni_ip_address (GetNetworkInterface dStatic 0) = ''10.0.0.9''
   \<and> resolveAddress platform1 dStatic ''vm-42'' \<lparr>mvm = zeroSummary, calls = [], retrieved = 0\<rparr>
       = Some (Inr (''10.0.0.9'', \<lparr>mvm = zeroSummary, calls = [], retrieved = 0\<rparr>))
   \<and> (\<exists>d'. resourceVSphereVirtualMachineRead platform1 dStatic =
              Some (Return None, d',
                    [FinderDefaultDatacenter, FinderVirtualMachine ''ha-datacenter'' ''vm1'',
                     CollectorRetrieveOne ''vm-42''])
            \<and> last (written d') = (''ip_address'', SString ''10.0.0.9'')
            \<and> ConnInfo d' = [(''host'', ''10.0.0.9'')])"
proof -
  have dc: "snd (findDatacenter platform1 dStatic) = Inr ''ha-datacenter''"
    by (simp add: findDatacenter_def ex_defs)
  have vm: "finder_VirtualMachine platform1 ''ha-datacenter'' (cfg_name dStatic) = Inr ''vm-42''"
    by (simp add: ex_defs)
  have ip: "ni_ip_address (GetNetworkInterface dStatic 0) = ''10.0.0.9''"
    by (simp add: GetNetworkInterface_def ex_defs)
  have ip': "ni_ip_address (GetNetworkInterface dStatic 0) \<noteq> []"
    by (simp add: ip)
  have e1: "fst (findDatacenter platform1 dStatic) = FinderDefaultDatacenter"
    by (simp add: findDatacenter_def ex_defs)
  have n: "cfg_name dStatic = ''vm1''"
    by (simp add: ex_defs)
  show ?thesis
    using read_static_address_no_polling [OF dc vm ip',
        of "\<lparr>mvm = zeroSummary, calls = [], retrieved = 0\<rparr>"]
    unfolding ip e1 n by simp
qed

subsection \<open>The boot delay has passed\<close>

text \<open>
  Claim C1 says that with no static address and a remaining boot delay of zero or
  less, the read goes on to the retry loop and retrieves the guest address until it is
  not empty. It does not: on \<open>dNoDelay\<close> the remaining delay is \<open>-10\<close>, the first
  summary has no guest address, the collector would report \<^verbatim>\<open>10.0.0.5\<close> at its
  fourth answer, and the read makes one retrieval and returns with an empty address.
\<close>

theorem read_elapsed_boot_delay_counterexample:
  "ni_ip_address (GetNetworkInterface dNoDelay 0) = []
   \<and> remaining_boot_delay platform1 dNoDelay 100000000000 = - 10
   \<and> collector_RetrieveOne platform1 3 ''vm-42'' = Inr (summaryAt ''10.0.0.5'')
   \<and> resourceVSphereVirtualMachineRead platform1 dNoDelay =
       Some (Return None,
             dNoDelay\<lparr>written := [(''datacenter'', SDatacenter ''ha-datacenter''),
                                  (''memory'', SInt 2048), (''cpu'', SInt 2),
                                  (''ip_address'', SString [])],
                      ConnInfo := [(''host'', [])]\<rparr>,
             [FinderDefaultDatacenter, FinderVirtualMachine ''ha-datacenter'' ''vm1'',
              CollectorRetrieveOne ''vm-42''])"
  by (simp add: resourceVSphereVirtualMachineRead_def findDatacenter_def Set_def
      SetConnInfo_def RetrieveOne_def resolveAddress_def dhcpAddress_def
      GetNetworkInterface_def remaining_boot_delay_def Seconds_def zeroSummary_def
      ex_defs)

text \<open>
  Claim C1, amended. With no static address, a first summary that was retrieved and
  has a boot time, and a remaining boot delay of zero or less, the read makes no wait
  and no retrieval after the first: it returns the guest address of the summary
  already fetched, empty or not, and no error.
\<close>

theorem read_elapsed_boot_delay_single_fetch:
  assumes "snd (findDatacenter p d) = Inr dc"
    and "finder_VirtualMachine p dc (cfg_name d) = Inr vm"
    and "ni_ip_address (GetNetworkInterface d 0) = []"
    and "collector_RetrieveOne p 0 vm = Inr summary"
    and "Runtime_BootTime summary = Some BootTime"
    and "remaining_boot_delay p d BootTime \<le> 0"
  shows "resourceVSphereVirtualMachineRead p d =
           Some (Return None,
                 d\<lparr>written := written d @
                      [(''datacenter'', SDatacenter dc),
                       (''memory'', SInt (Config_MemorySizeMB summary)),
                       (''cpu'', SInt (Config_NumCpu summary)),
                       (''ip_address'', SString (Guest_IpAddress summary))],
                   ConnInfo := [(''host'', Guest_IpAddress summary)]\<rparr>,
                 [fst (findDatacenter p d), FinderVirtualMachine dc (cfg_name d),
                  CollectorRetrieveOne vm])"
proof -
  let ?s = "RetrieveOne p vm
              \<lparr>mvm = zeroSummary,
               calls = [fst (findDatacenter p d), FinderVirtualMachine dc (cfg_name d)],
               retrieved = 0\<rparr>"
  have fetched: "mvm ?s = summary"
    using assms(4) by (simp add: RetrieveOne_def)
  have "resolveAddress p
          (Set ''cpu'' (SInt (Config_NumCpu summary))
             (Set ''memory'' (SInt (Config_MemorySizeMB summary))
                (Set ''datacenter'' (SDatacenter dc) d))) vm ?s
        = Some (Inr (Guest_IpAddress summary, ?s))"
    using assms(3,5,6) fetched by (simp add: resolveAddress_elapsed)
  then show ?thesis
    using assms(1,2) fetched
    apply (simp add: read_found Let_def)
    apply (simp add: RetrieveOne_def Set_def SetConnInfo_def)
    done
qed

theorem read_elapsed_boot_delay_single_fetch_witness:
  "remaining_boot_delay platformFlaky dNoDelay 100000000000 = - 10
   \<and> resourceVSphereVirtualMachineRead platformFlaky dNoDelay =
       Some (Return None,
             dNoDelay\<lparr>written := [(''datacenter'', SDatacenter ''ha-datacenter''),
                                  (''memory'', SInt 2048), (''cpu'', SInt 2),
                                  (''ip_address'', SString ''10.0.0.7'')],
                      ConnInfo := [(''host'', ''10.0.0.7'')]\<rparr>,
             [FinderDefaultDatacenter, FinderVirtualMachine ''ha-datacenter'' ''vm1'',
              CollectorRetrieveOne ''vm-42''])"
proof -
  have dc: "snd (findDatacenter platformFlaky dNoDelay) = Inr ''ha-datacenter''"
    by (simp add: findDatacenter_def ex_defs)
  have vm: "finder_VirtualMachine platformFlaky ''ha-datacenter'' (cfg_name dNoDelay) = Inr ''vm-42''"
    by (simp add: ex_defs)
  have ip: "ni_ip_address (GetNetworkInterface dNoDelay 0) = []"
    by (simp add: GetNetworkInterface_def ex_defs)
  have first: "collector_RetrieveOne platformFlaky 0 ''vm-42'' = Inr (summaryAt ''10.0.0.7'')"
    by (simp add: ex_defs)
  have bt: "Runtime_BootTime (summaryAt ''10.0.0.7'') = Some 100000000000"
    by (simp add: summaryAt_def)
  have rem: "remaining_boot_delay platformFlaky dNoDelay 100000000000 = - 10"
    by (simp add: remaining_boot_delay_def Seconds_def ex_defs)
  have le: "remaining_boot_delay platformFlaky dNoDelay 100000000000 \<le> 0"
    by (simp add: rem)
  show ?thesis
    using read_elapsed_boot_delay_single_fetch [OF dc vm ip first bt le] rem
    by (simp add: findDatacenter_def ex_defs)
qed

subsection \<open>Polling for the guest address\<close>

text \<open>
  Claim C4. With no static address and a remaining boot delay above zero, the read
  waits for the remaining delay and then retrieves the summary again and again, exactly
  as long as the guest address retrieved is empty. When the first \<open>k\<close> retrievals
  after the wait report no guest address and the next one reports an address, the read
  makes exactly \<open>k + 1\<close> retrievals after the wait (with a sleep of one second after
  each but the first) and returns the address of the last of them. For \<open>k = 2\<close>: the
  collector answers empty twice and then an address, three retrievals are made after
  the wait and the address is that of the third.
\<close>

theorem read_polls_until_guest_address:
  assumes "snd (findDatacenter p d) = Inr dc"
    and "finder_VirtualMachine p dc (cfg_name d) = Inr vm"
    and "ni_ip_address (GetNetworkInterface d 0) = []"
    and "collector_RetrieveOne p 0 vm = Inr summary"
    and "Runtime_BootTime summary = Some BootTime"
    and "remaining_boot_delay p d BootTime > 0"
    and "\<forall>j<k. \<exists>sm. collector_RetrieveOne p (Suc j) vm = Inr sm \<and> Guest_IpAddress sm = []"
    and "collector_RetrieveOne p (Suc k) vm = Inr found"
    and "Guest_IpAddress found \<noteq> []"
  shows "resourceVSphereVirtualMachineRead p d =
           Some (Return None,
                 d\<lparr>written := written d @
                      [(''datacenter'', SDatacenter dc),
                       (''memory'', SInt (Config_MemorySizeMB summary)),
                       (''cpu'', SInt (Config_NumCpu summary)),
                       (''ip_address'', SString (Guest_IpAddress found))],
                   ConnInfo := [(''host'', Guest_IpAddress found)]\<rparr>,
                 [fst (findDatacenter p d), FinderVirtualMachine dc (cfg_name d),
                  CollectorRetrieveOne vm, DelaySecond \<lfloor>remaining_boot_delay p d BootTime\<rfloor>]
                 @ CollectorRetrieveOne vm
                 # concat (replicate k [CollectorRetrieveOne vm, DelaySecond 1]))"
proof -
  let ?s0 = "RetrieveOne p vm
              \<lparr>mvm = zeroSummary,
               calls = [fst (findDatacenter p d), FinderVirtualMachine dc (cfg_name d)],
               retrieved = 0\<rparr>"
  let ?d' = "Set ''cpu'' (SInt (Config_NumCpu summary))
             (Set ''memory'' (SInt (Config_MemorySizeMB summary))
                (Set ''datacenter'' (SDatacenter dc) d))"
  let ?n = "\<lfloor>remaining_boot_delay p d BootTime\<rfloor>"
  let ?s1 = "RetrieveOne p vm (delaySecond ?n ?s0)"
  let ?es = "[fst (findDatacenter p d), FinderVirtualMachine dc (cfg_name d),
              CollectorRetrieveOne vm, DelaySecond ?n, CollectorRetrieveOne vm]"
  let ?end = "\<lparr>mvm = found,
               calls = ?es @ concat (replicate k [CollectorRetrieveOne vm, DelaySecond 1]),
               retrieved = Suc (Suc k)\<rparr>"
  have fetched: "mvm ?s0 = summary"
    using assms(4) by (simp add: RetrieveOne_def)
  have s1: "retrieved ?s1 = 2" "calls ?s1 = ?es"
    by (simp_all add: RetrieveOne_def delaySecond_def)
  have loop: "retryLoop p vm (Guest_IpAddress (mvm ?s1), ?s1) = Some (Guest_IpAddress found, ?end)"
  proof (cases k)
    case 0
    with assms(8,9) show ?thesis
      by (simp add: retryLoop_nonempty RetrieveOne_def delaySecond_def)
  next
    case (Suc k')
    with assms(7) obtain sm where "collector_RetrieveOne p (Suc 0) vm = Inr sm" "Guest_IpAddress sm = []"
      by force
    then have empty: "Guest_IpAddress (mvm ?s1) = []"
      by (simp add: RetrieveOne_def delaySecond_def)
    have "\<forall>j<k'. \<exists>sm. collector_RetrieveOne p (retrieved ?s1 + j) vm = Inr sm \<and> Guest_IpAddress sm = []"
    proof (intro allI impI)
      fix j assume "j < k'"
      then have "Suc j < k" using Suc by simp
      with assms(7) show "\<exists>sm. collector_RetrieveOne p (retrieved ?s1 + j) vm = Inr sm \<and> Guest_IpAddress sm = []"
        unfolding s1 by (metis add_2_eq_Suc)
    qed
    moreover have "collector_RetrieveOne p (retrieved ?s1 + k') vm = Inr found"
      using assms(8) Suc by (simp add: s1)
    ultimately have "retryLoop p vm ([], ?s1) =
        Some (Guest_IpAddress found,
              \<lparr>mvm = found,
               calls = calls ?s1 @ concat (replicate (Suc k') [CollectorRetrieveOne vm, DelaySecond 1]),
               retrieved = retrieved ?s1 + Suc k'\<rparr>)"
      using assms(9) by (rule retryLoop_run)
    then show ?thesis
      unfolding empty using Suc by (simp add: s1)
  qed
  have "dhcpAddress p ?d' vm ?s0 = Some (Inr (Guest_IpAddress (mvm ?end), ?end))"
    by (rule dhcpAddress_waits [where BootTime = BootTime and ip = "Guest_IpAddress found"])
       (use assms(5,6) fetched loop in simp_all)
  then have "resolveAddress p ?d' vm ?s0 = Some (Inr (Guest_IpAddress found, ?end))"
    using assms(3) by (simp add: resolveAddress_def)
  then show ?thesis
    using assms(1,2) fetched
    apply (simp add: read_found Let_def)
    apply (simp add: Set_def SetConnInfo_def)
    done
qed

theorem read_polls_until_guest_address_witness:
  "collector_RetrieveOne platform1 1 ''vm-42'' = Inr (summaryAt [])
   \<and> collector_RetrieveOne platform1 2 ''vm-42'' = Inr (summaryAt [])
   \<and> collector_RetrieveOne platform1 3 ''vm-42'' = Inr (summaryAt ''10.0.0.5'')
   \<and> resourceVSphereVirtualMachineRead platform1 d1 =
       Some (Return None,
             d1\<lparr>written := [(''datacenter'', SDatacenter ''ha-datacenter''),
                            (''memory'', SInt 2048), (''cpu'', SInt 2),
                            (''ip_address'', SString ''10.0.0.5'')],
                ConnInfo := [(''host'', ''10.0.0.5'')]\<rparr>,
             [FinderDefaultDatacenter, FinderVirtualMachine ''ha-datacenter'' ''vm1'',
              CollectorRetrieveOne ''vm-42'', DelaySecond 20,
              CollectorRetrieveOne ''vm-42'',
              CollectorRetrieveOne ''vm-42'', DelaySecond 1,
              CollectorRetrieveOne ''vm-42'', DelaySecond 1])"
proof -
  have dc: "snd (findDatacenter platform1 d1) = Inr ''ha-datacenter''"
    by (simp add: findDatacenter_def ex_defs)
  have vm: "finder_VirtualMachine platform1 ''ha-datacenter'' (cfg_name d1) = Inr ''vm-42''"
    by (simp add: ex_defs)
  have ip: "ni_ip_address (GetNetworkInterface d1 0) = []"
    by (simp add: GetNetworkInterface_def ex_defs)
  have first: "collector_RetrieveOne platform1 0 ''vm-42'' = Inr (summaryAt [])"
    by (simp add: ex_defs)
  have bt: "Runtime_BootTime (summaryAt []) = Some 100000000000"
    by (simp add: summaryAt_def)
  have rem: "remaining_boot_delay platform1 d1 100000000000 > 0"
    by (simp add: remaining_d1)
  have empties: "\<forall>j<Suc (Suc 0). \<exists>sm. collector_RetrieveOne platform1 (Suc j) ''vm-42'' = Inr sm
                    \<and> Guest_IpAddress sm = []"
    by (simp add: All_less_Suc ex_defs)
  have found: "collector_RetrieveOne platform1 (Suc (Suc (Suc 0))) ''vm-42'' = Inr (summaryAt ''10.0.0.5'')"
    by (simp add: ex_defs)
  have nonempty: "Guest_IpAddress (summaryAt ''10.0.0.5'') \<noteq> []"
    by (simp add: summaryAt_def)
  show ?thesis
    using read_polls_until_guest_address
      [OF dc vm ip first bt rem empties found nonempty, unfolded remaining_d1]
    by (simp add: findDatacenter_def ex_defs)
qed

subsection \<open>Retrieval errors\<close>

text \<open>
  Claim C10. The read never returns an error of a retrieval. The error a read returns
  is decided by the datacenter lookup alone, so it is the same whatever the collector
  answers. A first retrieval that fails leaves the zero-valued summary, from which the
  memory and the CPU count are written as 0. A refresh after the boot delay that fails
  leaves the summary of the first retrieval, whose guest address is written.
\<close>

theorem read_never_returns_retrieval_error:
  "(resourceVSphereVirtualMachineRead p d = Some (Return r, d1', es1) \<longrightarrow>
      r = (case snd (findDatacenter p d) of Inl err \<Rightarrow> Some err | Inr dc \<Rightarrow> None)
      \<and> (resourceVSphereVirtualMachineRead (p\<lparr>collector_RetrieveOne := c\<rparr>) d
            = Some (Return r', d2', es2) \<longrightarrow> r' = r))
   \<and> (snd (findDatacenter p d) = Inr dc \<longrightarrow>
      finder_VirtualMachine p dc (cfg_name d) = Inr vm \<longrightarrow>
      ni_ip_address (GetNetworkInterface d 0) \<noteq> [] \<longrightarrow>
      collector_RetrieveOne p 0 vm = Inl e \<longrightarrow>
      resourceVSphereVirtualMachineRead p d =
        Some (Return None,
              d\<lparr>written := written d @
                   [(''datacenter'', SDatacenter dc), (''memory'', SInt 0), (''cpu'', SInt 0),
                    (''ip_address'', SString (ni_ip_address (GetNetworkInterface d 0)))],
                ConnInfo := [(''host'', ni_ip_address (GetNetworkInterface d 0))]\<rparr>,
              [fst (findDatacenter p d), FinderVirtualMachine dc (cfg_name d),
               CollectorRetrieveOne vm]))
   \<and> (snd (findDatacenter p d) = Inr dc \<longrightarrow>
      finder_VirtualMachine p dc (cfg_name d) = Inr vm \<longrightarrow>
      ni_ip_address (GetNetworkInterface d 0) = [] \<longrightarrow>
      collector_RetrieveOne p 0 vm = Inr summary \<longrightarrow>
      Runtime_BootTime summary = Some BootTime \<longrightarrow>
      remaining_boot_delay p d BootTime > 0 \<longrightarrow>
      Guest_IpAddress summary \<noteq> [] \<longrightarrow>
      collector_RetrieveOne p (Suc 0) vm = Inl e \<longrightarrow>
      resourceVSphereVirtualMachineRead p d =
        Some (Return None,
              d\<lparr>written := written d @
                   [(''datacenter'', SDatacenter dc),
                    (''memory'', SInt (Config_MemorySizeMB summary)),
                    (''cpu'', SInt (Config_NumCpu summary)),
                    (''ip_address'', SString (Guest_IpAddress summary))],
                ConnInfo := [(''host'', Guest_IpAddress summary)]\<rparr>,
              [fst (findDatacenter p d), FinderVirtualMachine dc (cfg_name d),
               CollectorRetrieveOne vm, DelaySecond \<lfloor>remaining_boot_delay p d BootTime\<rfloor>,
               CollectorRetrieveOne vm]))"
proof (intro conjI impI)
  assume run: "resourceVSphereVirtualMachineRead p d = Some (Return r, d1', es1)"
  then show r: "r = (case snd (findDatacenter p d) of Inl err \<Rightarrow> Some err | Inr dc \<Rightarrow> None)"
    by (rule read_returned_error)
  assume "resourceVSphereVirtualMachineRead (p\<lparr>collector_RetrieveOne := c\<rparr>) d
            = Some (Return r', d2', es2)"
  then have "r' = (case snd (findDatacenter (p\<lparr>collector_RetrieveOne := c\<rparr>) d) of
                     Inl err \<Rightarrow> Some err | Inr dc \<Rightarrow> None)"
    by (rule read_returned_error)
  with r show "r' = r" by simp
qed (simp_all add: read_zero_after_failed_fetch read_stale_after_failed_refresh)

theorem read_never_returns_retrieval_error_witness:
  "resourceVSphereVirtualMachineRead platformOffline dStatic =
       Some (Return None,
             dStatic\<lparr>written := [(''datacenter'', SDatacenter ''ha-datacenter''),
                                 (''memory'', SInt 0), (''cpu'', SInt 0),
                                 (''ip_address'', SString ''10.0.0.9'')],
                     ConnInfo := [(''host'', ''10.0.0.9'')]\<rparr>,
             [FinderDefaultDatacenter, FinderVirtualMachine ''ha-datacenter'' ''vm1'',
              CollectorRetrieveOne ''vm-42''])
   \<and> resourceVSphereVirtualMachineRead platformFlaky d1 =
       Some (Return None,
             d1\<lparr>written := [(''datacenter'', SDatacenter ''ha-datacenter''),
                            (''memory'', SInt 2048), (''cpu'', SInt 2),
                            (''ip_address'', SString ''10.0.0.7'')],
                ConnInfo := [(''host'', ''10.0.0.7'')]\<rparr>,
             [FinderDefaultDatacenter, FinderVirtualMachine ''ha-datacenter'' ''vm1'',
              CollectorRetrieveOne ''vm-42'', DelaySecond 20, CollectorRetrieveOne ''vm-42''])"
proof -
  have rem: "remaining_boot_delay platformFlaky d1 100000000000 = 20"
    by (simp add: remaining_boot_delay_def Seconds_def ex_defs)
  have zero: "resourceVSphereVirtualMachineRead platformOffline dStatic =
       Some (Return None,
             dStatic\<lparr>written := [(''datacenter'', SDatacenter ''ha-datacenter''),
                                 (''memory'', SInt 0), (''cpu'', SInt 0),
                                 (''ip_address'', SString ''10.0.0.9'')],
                     ConnInfo := [(''host'', ''10.0.0.9'')]\<rparr>,
             [FinderDefaultDatacenter, FinderVirtualMachine ''ha-datacenter'' ''vm1'',
              CollectorRetrieveOne ''vm-42''])"
    using read_never_returns_retrieval_error
      [of platformOffline dStatic None _ _ _ None _ _ "''ha-datacenter''" "''vm-42''"
          "''connection lost''" "summaryAt []" 0]
    by (simp add: findDatacenter_def GetNetworkInterface_def ex_defs)
  have stale: "resourceVSphereVirtualMachineRead platformFlaky d1 =
       Some (Return None,
             d1\<lparr>written := [(''datacenter'', SDatacenter ''ha-datacenter''),
                            (''memory'', SInt 2048), (''cpu'', SInt 2),
                            (''ip_address'', SString ''10.0.0.7'')],
                ConnInfo := [(''host'', ''10.0.0.7'')]\<rparr>,
             [FinderDefaultDatacenter, FinderVirtualMachine ''ha-datacenter'' ''vm1'',
              CollectorRetrieveOne ''vm-42'', DelaySecond 20, CollectorRetrieveOne ''vm-42''])"
    using read_never_returns_retrieval_error
      [of platformFlaky d1 None _ _ _ None _ _ "''ha-datacenter''" "''vm-42''"
          "''connection lost''" "summaryAt ''10.0.0.7''" 100000000000] rem
    by (simp add: findDatacenter_def GetNetworkInterface_def ex_defs)
  from zero stale show ?thesis by simp
qed

section \<open>Updating\<close>

text \<open>
  Claim C9 says that some update applies a changed field. None does: the update of the
  resource with four CPUs, on a platform whose machine has two, makes no call and
  leaves the resource data as it was, and so does every update.
\<close>

theorem update_applies_change_counterexample:
  "resourceVSphereVirtualMachineUpdate platform1 (d1\<lparr>cfg_vcpu := 4\<rparr>)
     = (Return None, d1\<lparr>cfg_vcpu := 4\<rparr>, [])
   \<and> \<not> (\<exists>p d. snd (resourceVSphereVirtualMachineUpdate p d) \<noteq> (d, []))"
  by (simp add: resourceVSphereVirtualMachineUpdate_def)

text \<open>
  Claim C9, amended. Every update returns no error, makes no call to the platform and
  leaves the resource data as it was.
\<close>

theorem update_does_nothing:
  "resourceVSphereVirtualMachineUpdate p d = (Return None, d, [])"
  by (simp add: resourceVSphereVirtualMachineUpdate_def)

section \<open>Creating\<close>

subsection \<open>The disk loop never fails\<close>

text \<open>
  The size and the IOPS of a disk are integers, so the comparisons with \<^verbatim>\<open>""\<close>
  always hold: the body of the disk loop never returns an error, and neither does the
  loop. The name of the specification is the configured name.
\<close>

lemma diskBody_succeeds:
  "\<exists>st'. diskBody d i st = Inr st' \<and> name (fst st') = name (fst st)"
  by (simp add: diskBody_def)

lemma diskLoop_succeeds:
  "\<exists>st'. diskLoop d i st = Inr st' \<and> name (fst st') = name (fst st)"
proof (induction d i st rule: diskLoop.induct)
  case (1 d i st)
  show ?case
  proof (cases "i < length (cfg_disk d)")
    case True
    obtain st1 where b: "diskBody d i st = Inr st1" "name (fst st1) = name (fst st)"
      using diskBody_succeeds by blast
    from "1.IH" [OF True b(1)] obtain st' where
      "diskLoop d (Suc i) st1 = Inr st'" "name (fst st') = name (fst st1)"
      by blast
    with True b show ?thesis
      by (subst diskLoop.simps) simp
  next
    case False
    then show ?thesis
      by (subst diskLoop.simps) simp
  qed
qed

lemma buildVirtualMachine_succeeds:
  "\<exists>vm. buildVirtualMachine d = Inr vm \<and> name vm = cfg_name d"
proof -
  obtain st' where "diskLoop d 0
             ((initVirtualMachine d)
                \<lparr>networkInterfaces :=
                   map (initNetworkInterface d) [0..<length (cfg_network_interface d)]\<rparr>,
              replicate (length (cfg_disk d)) \<lparr>size' = 0, iops = 0\<rparr>) = Inr st'"
     "name (fst st') = cfg_name d"
    using diskLoop_succeeds [of d 0] by (fastforce simp: initVirtualMachine_def)
  then show ?thesis
    by (cases st') (simp add: buildVirtualMachine_def)
qed

lemma buildVirtualMachine_dNoSize: "buildVirtualMachine dNoSize = Inr vmNoSize"
  by (simp add: buildVirtualMachine_def diskLoop.simps diskBody_def initVirtualMachine_def
      initNetworkInterface_def GetDisk_def GetNetworkInterface_def schemaInt_def
      DefaultDNSSuffixes_def DefaultDNSServers_def ex_defs)

text \<open>
  Claim C2 (no template and no size on the first disk is refused before any call to
  the platform) on \<open>dNoSize\<close>: the create callback builds a specification whose disk
  has size 0, hands it to \<^verbatim>\<open>createVirtualMachine\<close>, sets the identity and reads the
  machine. It returns no error.
\<close>

theorem create_without_size_calls_platform:
  "disk_template (GetDisk dNoSize 0) = [] \<and> disk_size (GetDisk dNoSize 0) = None
   \<and> resourceVSphereVirtualMachineCreate platform1 dNoSize =
       Some (Return None,
             dNoSize\<lparr>Id := ''vm1'',
               written := [(''datacenter'', SDatacenter ''ha-datacenter''),
                           (''memory'', SInt 2048), (''cpu'', SInt 2),
                           (''ip_address'', SString ''10.0.0.5'')],
               ConnInfo := [(''host'', ''10.0.0.5'')]\<rparr>,
             [CreateVirtualMachine vmNoSize,
              FinderDefaultDatacenter, FinderVirtualMachine ''ha-datacenter'' ''vm1'',
              CollectorRetrieveOne ''vm-42'', DelaySecond 20,
              CollectorRetrieveOne ''vm-42'',
              CollectorRetrieveOne ''vm-42'', DelaySecond 1,
              CollectorRetrieveOne ''vm-42'', DelaySecond 1])"
proof -
  have t: "template vmNoSize = []" "name vmNoSize = ''vm1''"
    by (simp_all add: vmNoSize_def)
  have c: "vm_createVirtualMachine platform1 vmNoSize = None"
    by (simp add: ex_defs)
  have "resourceVSphereVirtualMachineRead platform1 (SetId ''vm1'' dNoSize) =
       Some (Return None,
             dNoSize\<lparr>Id := ''vm1'',
               written := [(''datacenter'', SDatacenter ''ha-datacenter''),
                           (''memory'', SInt 2048), (''cpu'', SInt 2),
                           (''ip_address'', SString ''10.0.0.5'')],
               ConnInfo := [(''host'', ''10.0.0.5'')]\<rparr>,
             [FinderDefaultDatacenter, FinderVirtualMachine ''ha-datacenter'' ''vm1'',
              CollectorRetrieveOne ''vm-42'', DelaySecond 20,
              CollectorRetrieveOne ''vm-42'',
              CollectorRetrieveOne ''vm-42'', DelaySecond 1,
              CollectorRetrieveOne ''vm-42'', DelaySecond 1])"
    by (simp add: resourceVSphereVirtualMachineRead_def findDatacenter_def SetId_def Set_def
        SetConnInfo_def RetrieveOne_def delaySecond_def resolveAddress_def dhcpAddress_def
        GetNetworkInterface_def remaining_boot_delay_def Seconds_def zeroSummary_def
        retryLoop.simps ex_defs)
  then show ?thesis
    by (simp add: resourceVSphereVirtualMachineCreate_def buildVirtualMachine_dNoSize t c
        createdThenRead_def)
       (simp add: GetDisk_def ex_defs)
qed

subsection \<open>The identity after a failed create\<close>

lemma createdThenRead_error:
  assumes "createdThenRead p d vm e = Some (Return (Some err), d', es)"
  shows "d' = SetId (name vm) d \<and> snd (findDatacenter p d) = Inl err
         \<and> es = [e, fst (findDatacenter p d)]"
proof -
  from assms obtain es' where
    run: "resourceVSphereVirtualMachineRead p (SetId (name vm) d) = Some (Return (Some err), d', es')"
    and es: "es = e # es'"
    by (auto simp: createdThenRead_def split: option.splits)
  have same: "findDatacenter p (SetId (name vm) d) = findDatacenter p d"
    by (simp add: findDatacenter_def SetId_def)
  from read_error_is_lookup [OF run] same es show ?thesis
    by (metis fst_conv snd_conv)
qed

text \<open>
  Claim C3 says that a create that returns an error leaves the identity unset. On a
  platform that creates the machine and then has no default datacenter, the create of
  the new resource \<open>dNoSize\<close> returns the error of the lookup with the identity set
  to the name of the machine.
\<close>

theorem create_failed_read_keeps_identity_counterexample:
  "Id dNoSize = []
   \<and> resourceVSphereVirtualMachineCreate platformNoDatacenter dNoSize =
       Some (Return (Some ''no default datacenter''), dNoSize\<lparr>Id := ''vm1''\<rparr>,
             [CreateVirtualMachine vmNoSize, FinderDefaultDatacenter])"
proof -
  have t: "template vmNoSize = []" "name vmNoSize = ''vm1''"
    by (simp_all add: vmNoSize_def)
  have c: "vm_createVirtualMachine platformNoDatacenter vmNoSize = None"
    by (simp add: ex_defs)
  have "resourceVSphereVirtualMachineRead platformNoDatacenter (SetId ''vm1'' dNoSize) =
          Some (Return (Some ''no default datacenter''), dNoSize\<lparr>Id := ''vm1''\<rparr>,
                [FinderDefaultDatacenter])"
    by (simp add: resourceVSphereVirtualMachineRead_def findDatacenter_def SetId_def ex_defs)
  then show ?thesis
    by (simp add: resourceVSphereVirtualMachineCreate_def buildVirtualMachine_dNoSize t c
        createdThenRead_def)
       (simp add: ex_defs)
qed

text \<open>
  Claim C3, amended. A create that returns an error has built the specification and
  ends in one of two ways. Either the platform call (\<^verbatim>\<open>deployVirtualMachine\<close> with a
  template, \<^verbatim>\<open>createVirtualMachine\<close> without) has failed: then it is the only call
  made, its error is returned with the prefix \<^verbatim>\<open>error: \<close>, and the resource data, so
  the identity too, is left as it was on entry. Or the platform call has succeeded and
  the datacenter lookup of the read that follows has failed: then that error is
  returned and the identity is the name of the machine.
\<close>

theorem create_error_identity:
  assumes "resourceVSphereVirtualMachineCreate p d = Some (Return (Some err), d', es)"
  shows "\<exists>vm. buildVirtualMachine d = Inr vm \<and> name vm = cfg_name d \<and>
           ((\<exists>e. template vm \<noteq> [] \<and> vm_deployVirtualMachine p vm = Some e
                 \<and> err = ''error: '' @ e \<and> es = [DeployVirtualMachine vm] \<and> d' = d)
          \<or> (\<exists>e. template vm = [] \<and> vm_createVirtualMachine p vm = Some e
                 \<and> err = ''error: '' @ e \<and> es = [CreateVirtualMachine vm] \<and> d' = d)
          \<or> (template vm \<noteq> [] \<and> vm_deployVirtualMachine p vm = None
                 \<and> snd (findDatacenter p d) = Inl err
                 \<and> es = [DeployVirtualMachine vm, fst (findDatacenter p d)]
                 \<and> d' = d\<lparr>Id := cfg_name d\<rparr>)
          \<or> (template vm = [] \<and> vm_createVirtualMachine p vm = None
                 \<and> snd (findDatacenter p d) = Inl err
                 \<and> es = [CreateVirtualMachine vm, fst (findDatacenter p d)]
                 \<and> d' = d\<lparr>Id := cfg_name d\<rparr>))"
proof -
  obtain vm where vm: "buildVirtualMachine d = Inr vm" "name vm = cfg_name d"
    using buildVirtualMachine_succeeds by blast
  show ?thesis
  proof (cases "template vm = []")
    case True
    show ?thesis
    proof (cases "vm_createVirtualMachine p vm")
      case None
      with assms vm True have "createdThenRead p d vm (CreateVirtualMachine vm)
          = Some (Return (Some err), d', es)"
        by (simp add: resourceVSphereVirtualMachineCreate_def)
      from createdThenRead_error [OF this] vm True None show ?thesis
        by (simp add: SetId_def)
    next
      case (Some e)
      with assms vm True show ?thesis
        by (simp add: resourceVSphereVirtualMachineCreate_def)
    qed
  next
    case False
    show ?thesis
    proof (cases "vm_deployVirtualMachine p vm")
      case None
      with assms vm False have "createdThenRead p d vm (DeployVirtualMachine vm)
          = Some (Return (Some err), d', es)"
        by (simp add: resourceVSphereVirtualMachineCreate_def)
      from createdThenRead_error [OF this] vm False None show ?thesis
        by (simp add: SetId_def)
    next
      case (Some e)
      with assms vm False show ?thesis
        by (simp add: resourceVSphereVirtualMachineCreate_def)
    qed
  qed
qed

theorem create_error_identity_witness:
  "Id dNoSize = []
   \<and> resourceVSphereVirtualMachineCreate platformNoQuota dNoSize =
       Some (Return (Some ''error: quota exceeded''), dNoSize, [CreateVirtualMachine vmNoSize])"
proof -
  have run: "resourceVSphereVirtualMachineCreate platformNoQuota dNoSize =
       Some (Return (Some ''error: quota exceeded''), dNoSize, [CreateVirtualMachine vmNoSize])"
    by (simp add: resourceVSphereVirtualMachineCreate_def buildVirtualMachine_dNoSize)
       (simp add: ex_defs)
  show ?thesis
    using create_error_identity [OF run] run by (simp add: ex_defs)
qed

end
